theory Spec2Isabelle
  imports Complex_Main
begin

section \<open>Binary64 arithmetic\<close>

text \<open>
  Prices, discounts and totals of the generator are Python floats. A float is represented
  by the rational number it denotes; every operation computes the exact result and rounds
  it to the nearest number with a 53-bit significand, ties to the even significand. The
  exponent range is not bounded: every amount of the generator lies between 2^-10 and
  2^20, far from overflow and from subnormal numbers.
\<close>

definition rne :: "rat \<Rightarrow> int" where
  "rne y = (let f = \<lfloor>y\<rfloor>; d = y - of_int f
            in if d < 1 / 2 then f
               else if 1 / 2 < d then f + 1
               else if even f then f else f + 1)"

function ilog2 :: "rat \<Rightarrow> int" where
  "ilog2 x = (if x \<le> 0 then 0
              else if 2 \<le> x then ilog2 (x / 2) + 1
              else if x < 1 then ilog2 (x * 2) - 1
              else 0)"
  by pat_completeness auto
termination
proof (relation "measure (\<lambda>x. nat (2 * \<lceil>1 / x\<rceil> + \<lfloor>x\<rfloor>))", goal_cases)
  case 1 show ?case by simp
next
  case (2 x)
  then have x: "2 \<le> x" by simp
  have a: "\<lceil>1 / (x / 2)\<rceil> = 1" using x by (simp add: ceiling_eq_iff)
  have b: "\<lceil>1 / x\<rceil> = 1" using x by (simp add: ceiling_eq_iff field_simps)
  have c: "\<lfloor>x / 2\<rfloor> < \<lfloor>x\<rfloor>" using x by (simp add: floor_less_iff) linarith
  have d: "0 \<le> \<lfloor>x / 2\<rfloor>" using x by simp
  have e: "2 \<le> \<lfloor>x\<rfloor>" using x by (simp add: le_floor_iff)
  have "nat (2 * \<lceil>1 / (x / 2)\<rceil> + \<lfloor>x / 2\<rfloor>) < nat (2 * \<lceil>1 / x\<rceil> + \<lfloor>x\<rfloor>)"
    unfolding a b using c d e by linarith
  then show ?case by simp
next
  case (3 x)
  then have x: "0 < x" "x < 1" by simp_all
  have "nat (2 * \<lceil>1 / (x * 2)\<rceil> + \<lfloor>x * 2\<rfloor>) < nat (2 * \<lceil>1 / x\<rceil> + \<lfloor>x\<rfloor>)"
  proof (cases "x < 1 / 2")
    case True
    have f0: "\<lfloor>x\<rfloor> = 0" using x by (simp add: floor_eq_iff)
    have f1: "\<lfloor>x * 2\<rfloor> = 0" using x True by (simp add: floor_eq_iff)
    have c2: "2 \<le> \<lceil>1 / x\<rceil>" using x True by (simp add: le_ceiling_iff field_simps)
    have "1 / x \<le> of_int \<lceil>1 / x\<rceil>" by (rule le_of_int_ceiling)
    then have "1 / (x * 2) \<le> of_int \<lceil>1 / x\<rceil> / 2" using x by (simp add: field_simps)
    also have "\<dots> \<le> of_int (\<lceil>1 / x\<rceil> - 1)" using c2 by simp
    finally have "\<lceil>1 / (x * 2)\<rceil> \<le> \<lceil>1 / x\<rceil> - 1" by (simp only: ceiling_le_iff)
    then show ?thesis unfolding f0 f1 using c2 by linarith
  next
    case False
    have f0: "\<lfloor>x\<rfloor> = 0" using x by (simp add: floor_eq_iff)
    have f1: "\<lfloor>x * 2\<rfloor> = 1" using x False by (simp add: floor_eq_iff)
    have c1: "\<lceil>1 / (x * 2)\<rceil> = 1" using x False by (simp add: ceiling_eq_iff field_simps)
    have c2: "\<lceil>1 / x\<rceil> = 2" using x False by (simp add: ceiling_eq_iff field_simps)
    show ?thesis unfolding f0 f1 c1 c2 by simp
  qed
  then show ?case using x by simp
qed

declare ilog2.simps [simp del]

definition pow2 :: "int \<Rightarrow> rat" where
  "pow2 e = (if 0 \<le> e then 2 ^ nat e else 1 / 2 ^ nat (- e))"

definition fl :: "rat \<Rightarrow> rat" where
  "fl x = (if x = 0 then 0
           else let s = pow2 (ilog2 \<bar>x\<bar> - 52)
                in sgn x * of_int (rne (\<bar>x\<bar> / s)) * s)"

definition fadd :: "rat \<Rightarrow> rat \<Rightarrow> rat" where
  "fadd x y = fl (x + y)"

definition fsub :: "rat \<Rightarrow> rat \<Rightarrow> rat" where
  "fsub x y = fl (x - y)"

definition fmul :: "rat \<Rightarrow> rat \<Rightarrow> rat" where
  "fmul x y = fl (x * y)"

text \<open>A decimal literal of the source, such as \<open>0.08\<close>, denotes the nearest float.\<close>

definition lit :: "rat \<Rightarrow> rat" where
  "lit q = fl q"

text \<open>
  Python's \<open>round(x, 2)\<close>: the exact value of \<open>x\<close> is rounded to two decimals, ties to
  the even digit, and the decimal result is converted back to the nearest float.
\<close>

definition round2 :: "rat \<Rightarrow> rat" where
  "round2 x = fl (of_int (rne (x * 100)) / 100)"

section \<open>The environment of a run\<close>

text \<open>
  The generator reads four things from its environment: the global generator of Python's
  \<open>random\<close> module and the generator of Faker, both seeded with 42 when the module is
  imported; the global generator of numpy, which \<open>DataFrame.sample\<close> uses and which the
  module never seeds; and the wall clock. A generator is the sequence of numbers it is
  going to deliver (a list, continued with zeros); each use reduces the number drawn to
  the range it needs. The clock counts seconds since
  1970-01-01 and is read as one value for the whole run. \<open>faker_rel\<close> is the number of
  seconds that Faker's parser assigns to a relative date such as \<open>-3m\<close>; the parser is no
  part of the repository.
\<close>

record world =
  py_rng :: "int list"
  fk_rng :: "int list"
  np_rng :: "int list"
  clock :: int
  faker_rel :: "string \<Rightarrow> int"

definition next_draw :: "int list \<Rightarrow> int \<times> int list" where
  "next_draw s = (case s of [] \<Rightarrow> (0, []) | d # ds \<Rightarrow> (d, ds))"

subsection \<open>The random module\<close>

definition py_random :: "world \<Rightarrow> rat \<times> world" where
  "py_random w = (let (d, s) = next_draw (py_rng w)
                  in (of_int (d mod 2 ^ 53) / 2 ^ 53, w\<lparr>py_rng := s\<rparr>))"

definition py_randint :: "int \<Rightarrow> int \<Rightarrow> world \<Rightarrow> int \<times> world" where
  "py_randint a b w = (let (d, s) = next_draw (py_rng w)
                       in (a + d mod (b - a + 1), w\<lparr>py_rng := s\<rparr>))"

text \<open>Every call of \<open>random.choice\<close> in the source passes a non-empty literal list.\<close>

definition py_choice :: "'a list \<Rightarrow> world \<Rightarrow> 'a \<times> world" where
  "py_choice seq w = (let (d, s) = next_draw (py_rng w)
                      in (seq ! nat (d mod int (length seq)), w\<lparr>py_rng := s\<rparr>))"

definition py_uniform :: "int \<Rightarrow> int \<Rightarrow> world \<Rightarrow> rat \<times> world" where
  "py_uniform a b w = (let (r, w') = py_random w
                       in (fadd (of_int a) (fmul (of_int (b - a)) r), w'))"

fun accumulate_from :: "rat \<Rightarrow> rat list \<Rightarrow> rat list" where
  "accumulate_from t [] = []"
| "accumulate_from t (x # xs) = fadd t x # accumulate_from (fadd t x) xs"

definition accumulate :: "rat list \<Rightarrow> rat list" where
  "accumulate xs = (case xs of [] \<Rightarrow> [] | x # ys \<Rightarrow> x # accumulate_from x ys)"

definition bisect :: "rat list \<Rightarrow> rat \<Rightarrow> nat \<Rightarrow> nat" where
  "bisect a x hi = length (takeWhile (\<lambda>c. c \<le> x) (take hi a))"

text \<open>\<open>random.choices(population, weights)[0]\<close>.\<close>

definition py_choices :: "'a list \<Rightarrow> rat list \<Rightarrow> world \<Rightarrow> 'a \<times> world" where
  "py_choices population weights w =
     (let cum_weights = accumulate weights;
          total = fadd (last cum_weights) 0;
          hi = length population - 1;
          (r, w') = py_random w
      in (population ! bisect cum_weights (fmul r total) hi, w'))"

subsection \<open>Faker\<close>

text \<open>
  A text provider of Faker (\<open>email\<close>, \<open>city\<close>, ...) is not modelled beyond the fact that
  its result is determined by Faker's generator: the text is the provider's name with the
  number drawn.
\<close>

type_synonym faketext = "string \<times> int"

definition fake_text :: "string \<Rightarrow> world \<Rightarrow> faketext \<times> world" where
  "fake_text provider w = (let (d, s) = next_draw (fk_rng w)
                           in ((provider, d), w\<lparr>fk_rng := s\<rparr>))"

text \<open>Dates are days since 1970-01-01, date-times are seconds since then.\<close>

definition today :: "world \<Rightarrow> int" where
  "today w = clock w div 86400"

definition parse_date :: "world \<Rightarrow> string \<Rightarrow> int" where
  "parse_date w s = (if s = ''today'' \<or> s = ''now'' then today w
                     else today w + faker_rel w s div 86400)"

definition parse_date_time :: "world \<Rightarrow> string \<Rightarrow> int" where
  "parse_date_time w s = (if s = ''now'' then clock w else clock w + faker_rel w s)"

text \<open>
  \<open>date_between\<close> and \<open>date_time_between\<close> return a point of the window, chosen by
  Faker's generator. When the window holds at most one second, \<open>date_time_between\<close>
  returns its start plus a fraction of a second, which is dropped here.
\<close>

definition date_between_dates :: "int \<Rightarrow> int \<Rightarrow> world \<Rightarrow> int \<times> world" where
  "date_between_dates lo hi w =
     (let (d, s) = next_draw (fk_rng w)
      in (if hi \<le> lo then lo else lo + d mod (hi - lo + 1), w\<lparr>fk_rng := s\<rparr>))"

definition fake_date_between :: "string \<Rightarrow> string \<Rightarrow> world \<Rightarrow> int \<times> world" where
  "fake_date_between start_date end_date w =
     date_between_dates (parse_date w start_date) (parse_date w end_date) w"

definition date_time_between_ts :: "int \<Rightarrow> int \<Rightarrow> world \<Rightarrow> int \<times> world" where
  "date_time_between_ts start_ts end_ts w =
     (let (d, s) = next_draw (fk_rng w)
      in (if end_ts - start_ts \<le> 1 then start_ts
          else start_ts + d mod (end_ts - start_ts + 1), w\<lparr>fk_rng := s\<rparr>))"

section \<open>Records and data frames\<close>

datatype error = KeyError string | ValueError string

text \<open>
  \<open>pd.DataFrame(rows)\<close> takes its columns from the dictionaries in \<open>rows\<close>: built from
  the empty list it has no column at all, and reading a column of it raises
  \<open>KeyError\<close>. A frame with columns may still have no row (the result of a filter).
\<close>

datatype 'a frame = NoColumns | Table "'a list"

definition DataFrame :: "'a list \<Rightarrow> 'a frame" where
  "DataFrame rs = (if rs = [] then NoColumns else Table rs)"

fun frame_rows :: "'a frame \<Rightarrow> 'a list" where
  "frame_rows NoColumns = []"
| "frame_rows (Table rs) = rs"

record category =
  cat_id :: int
  cat_name :: string
  cat_margin :: rat

record customer =
  c_customer_id :: int
  c_email :: faketext
  c_first_name :: faketext
  c_last_name :: faketext
  c_phone :: faketext
  c_address :: faketext
  c_city :: faketext
  c_state :: faketext
  c_zip_code :: faketext
  c_country :: string
  c_segment :: string
  c_registration_date :: int
  c_is_active :: bool
  c_created_at :: int
  c_updated_at :: int

record product =
  p_product_id :: int
  p_sku :: string
  p_name :: "faketext \<times> string"
  p_description :: faketext
  p_category_id :: int
  p_category_name :: string
  p_price :: rat
  p_cost :: rat
  p_stock_quantity :: int
  p_is_active :: bool
  p_created_at :: int
  p_updated_at :: int

record order =
  o_order_id :: int
  o_customer_id :: int
  o_order_date :: int
  o_status :: string
  o_subtotal :: rat
  o_shipping :: rat
  o_tax :: rat
  o_total :: rat
  o_payment_method :: string
  o_shipping_address :: faketext
  o_shipping_city :: faketext
  o_shipping_state :: faketext
  o_shipping_zip :: faketext
  o_created_at :: int
  o_updated_at :: int

record order_item =
  i_order_item_id :: int
  i_order_id :: int
  i_product_id :: int
  i_quantity :: int
  i_unit_price :: rat
  i_discount :: rat
  i_line_total :: rat

section \<open>EcommerceDataGenerator\<close>

definition categories :: "category list" where
  "categories =
     [\<lparr>cat_id = 1, cat_name = ''Electronics'', cat_margin = lit (15 / 100)\<rparr>,
      \<lparr>cat_id = 2, cat_name = ''Clothing'', cat_margin = lit (40 / 100)\<rparr>,
      \<lparr>cat_id = 3, cat_name = ''Home & Garden'', cat_margin = lit (35 / 100)\<rparr>,
      \<lparr>cat_id = 4, cat_name = ''Sports'', cat_margin = lit (30 / 100)\<rparr>,
      \<lparr>cat_id = 5, cat_name = ''Books'', cat_margin = lit (25 / 100)\<rparr>,
      \<lparr>cat_id = 6, cat_name = ''Toys'', cat_margin = lit (45 / 100)\<rparr>,
      \<lparr>cat_id = 7, cat_name = ''Beauty'', cat_margin = lit (50 / 100)\<rparr>,
      \<lparr>cat_id = 8, cat_name = ''Food & Grocery'', cat_margin = lit (20 / 100)\<rparr>]"

definition product_templates :: "string \<Rightarrow> string list" where
  "product_templates name =
     (if name = ''Electronics'' then
        [''Laptop'', ''Smartphone'', ''Tablet'', ''Headphones'', ''Smart Watch'', ''Camera'',
         ''Speaker'', ''Monitor'']
      else if name = ''Clothing'' then
        [''T-Shirt'', ''Jeans'', ''Dress'', ''Jacket'', ''Sneakers'', ''Hoodie'', ''Shorts'',
         ''Sweater'']
      else if name = ''Home & Garden'' then
        [''Lamp'', ''Rug'', ''Plant Pot'', ''Cushion'', ''Blanket'', ''Vase'', ''Mirror'',
         ''Clock'']
      else if name = ''Sports'' then
        [''Yoga Mat'', ''Dumbbells'', ''Running Shoes'', ''Basketball'', ''Tennis Racket'',
         ''Bike Helmet'', ''Gym Bag'', ''Water Bottle'']
      else if name = ''Books'' then
        [''Fiction Novel'', ''Cookbook'', ''Biography'', ''Self-Help Book'', ''Science Book'',
         ''History Book'', ''Art Book'', ''Travel Guide'']
      else if name = ''Toys'' then
        [''Board Game'', ''Puzzle'', ''Action Figure'', ''Doll'', ''Building Blocks'',
         ''Remote Control Car'', ''Stuffed Animal'', ''Card Game'']
      else if name = ''Beauty'' then
        [''Moisturizer'', ''Lipstick'', ''Perfume'', ''Shampoo'', ''Face Mask'',
         ''Nail Polish'', ''Sunscreen'', ''Hair Dryer'']
      else
        [''Coffee Beans'', ''Olive Oil'', ''Chocolate Box'', ''Spice Set'', ''Tea Collection'',
         ''Honey'', ''Pasta Set'', ''Snack Box''])"

definition order_statuses :: "string list" where
  "order_statuses = [''completed'', ''completed'', ''completed'', ''completed'', ''shipped'',
                     ''processing'', ''cancelled'', ''returned'']"

text \<open>A \<open>for\<close> loop over a range that appends one row per round.\<close>

fun for_range :: "(int \<Rightarrow> world \<Rightarrow> 'a \<times> world) \<Rightarrow> int list \<Rightarrow> world \<Rightarrow> 'a list \<times> world" where
  "for_range body [] w = ([], w)"
| "for_range body (i # rest) w =
     (let (x, w1) = body i w; (xs, w2) = for_range body rest w1 in (x # xs, w2))"

subsection \<open>generate_customers\<close>

definition segments :: "string list" where
  "segments = [''premium'', ''regular'', ''occasional'', ''new'']"

definition segment_weights :: "rat list" where
  "segment_weights = [lit (1 / 10), lit (4 / 10), lit (3 / 10), lit (2 / 10)]"

definition customer_row :: "int \<Rightarrow> world \<Rightarrow> customer \<times> world" where
  "customer_row i w =
     (let (segment, w1) = py_choices segments segment_weights w;
          (reg_date, w2) =
            (if segment = ''new'' then fake_date_between ''-3m'' ''today'' w1
             else if segment = ''premium'' then fake_date_between ''-3y'' ''-1y'' w1
             else fake_date_between ''-2y'' ''-1m'' w1);
          (email, w3) = fake_text ''email'' w2;
          (first_name, w4) = fake_text ''first_name'' w3;
          (last_name, w5) = fake_text ''last_name'' w4;
          (phone, w6) = fake_text ''phone_number'' w5;
          (address, w7) = fake_text ''street_address'' w6;
          (city, w8) = fake_text ''city'' w7;
          (state, w9) = fake_text ''state_abbr'' w8;
          (zip_code, w10) = fake_text ''zipcode'' w9;
          (active, w11) = py_choices [True, False] [lit (9 / 10), lit (1 / 10)] w10
      in (\<lparr>c_customer_id = i, c_email = email, c_first_name = first_name,
           c_last_name = last_name, c_phone = phone, c_address = address, c_city = city,
           c_state = state, c_zip_code = zip_code, c_country = ''USA'',
           c_segment = segment, c_registration_date = reg_date, c_is_active = active,
           c_created_at = 86400 * reg_date, c_updated_at = clock w11\<rparr>, w11))"

definition generate_customers :: "int \<Rightarrow> world \<Rightarrow> customer frame \<times> world" where
  "generate_customers n w =
     (let (customers, w') = for_range customer_row [1..n] w in (DataFrame customers, w'))"

subsection \<open>generate_products\<close>

fun digits :: "nat \<Rightarrow> string" where
  "digits n = (if n < 10 then [char_of (48 + n)]
               else digits (n div 10) @ [char_of (48 + n mod 10)])"

declare digits.simps [simp del]

definition zero_pad :: "nat \<Rightarrow> int \<Rightarrow> string" where
  "zero_pad k n = (let s = digits (nat n) in replicate (k - length s) (CHR ''0'') @ s)"

definition price_range :: "string \<Rightarrow> int \<times> int" where
  "price_range category_name =
     (if category_name = ''Electronics'' then (50, 1500)
      else if category_name = ''Books'' then (10, 50)
      else (15, 200))"

definition product_row :: "int \<Rightarrow> world \<Rightarrow> product \<times> world" where
  "product_row i w =
     (let (category, w1) = py_choice categories w;
          category_name = cat_name category;
          (base_product, w2) = py_choice (product_templates category_name) w1;
          (u, w3) = py_uniform (fst (price_range category_name))
                      (snd (price_range category_name)) w2;
          price = round2 u;
          cost = round2 (fmul price (fsub 1 (cat_margin category)));
          (word, w4) = fake_text ''word'' w3;
          (sentence, w5) = fake_text ''sentence'' w4;
          (stock, w6) = py_randint 0 500 w5;
          (active, w7) = py_choices [True, False] [lit (85 / 100), lit (15 / 100)] w6;
          (created, w8) = date_time_between_ts (parse_date_time w7 ''-2y'')
                            (parse_date_time w7 ''-6m'') w7
      in (\<lparr>p_product_id = i,
           p_sku = ''SKU-'' @ zero_pad 2 (cat_id category) @ ''-'' @ zero_pad 5 i,
           p_name = (word, base_product), p_description = sentence,
           p_category_id = cat_id category, p_category_name = category_name,
           p_price = price, p_cost = cost, p_stock_quantity = stock, p_is_active = active,
           p_created_at = created, p_updated_at = clock w8\<rparr>, w8))"

definition generate_products :: "int \<Rightarrow> world \<Rightarrow> product frame \<times> world" where
  "generate_products n w =
     (let (products, w') = for_range product_row [1..n] w in (DataFrame products, w'))"

subsection \<open>generate_orders\<close>

definition segment_weight :: "string \<Rightarrow> nat" where
  "segment_weight s =
     (if s = ''premium'' then 4 else if s = ''regular'' then 2
      else if s = ''occasional'' then 1 else if s = ''new'' then 1 else 0)"

fun cumsum_from :: "nat \<Rightarrow> nat list \<Rightarrow> nat list" where
  "cumsum_from t [] = []"
| "cumsum_from t (x # xs) = (t + x) # cumsum_from (t + x) xs"

definition searchsorted :: "nat list \<Rightarrow> nat \<Rightarrow> nat" where
  "searchsorted a x = length (takeWhile (\<lambda>c. c \<le> x) a)"

text \<open>
  \<open>customers_df.sample(weights=customers_df["segment"].map({...})).iloc[0]\<close>: one row,
  chosen by numpy's generator with the probability its weight gives it. A segment that the
  mapping does not know has weight nothing; weights that sum to zero are refused.
\<close>

definition sample_customer :: "customer frame \<Rightarrow> world \<Rightarrow> error + customer \<times> world" where
  "sample_customer customers_df w =
     (case customers_df of
        NoColumns \<Rightarrow> Inl (KeyError ''segment'')
      | Table rs \<Rightarrow>
          (let weights = map (\<lambda>c. segment_weight (c_segment c)) rs;
               total = sum_list weights
           in if total = 0 then Inl (ValueError ''Invalid weights: weights sum to zero'')
              else (let (d, s) = next_draw (np_rng w)
                    in Inr (rs ! searchsorted (cumsum_from 0 weights) (nat (d mod int total)),
                            w\<lparr>np_rng := s\<rparr>))))"

text \<open>
  \<open>active_products.sample(n=k)\<close>: \<open>k\<close> rows drawn without replacement. Each round takes
  one of the rows that are left.
\<close>

fun draw_rows :: "nat \<Rightarrow> 'a list \<Rightarrow> int list \<Rightarrow> 'a list \<times> int list" where
  "draw_rows 0 pool s = ([], s)"
| "draw_rows (Suc k) pool s =
     (if pool = [] then ([], s)
      else (let (d, s1) = next_draw s;
                i = nat (d mod int (length pool));
                (rest, s2) = draw_rows k (take i pool @ drop (Suc i) pool) s1
            in (pool ! i # rest, s2)))"

definition sample_n :: "int \<Rightarrow> 'a list \<Rightarrow> world \<Rightarrow> error + 'a list \<times> world" where
  "sample_n n pool w =
     (if n < 0 then Inl (ValueError ''A negative number of rows requested'')
      else if int (length pool) < n
      then Inl (ValueError ''Cannot take a larger sample than population'')
      else (let (rs, s) = draw_rows (nat n) pool (np_rng w) in Inr (rs, w\<lparr>np_rng := s\<rparr>)))"

text \<open>\<open>datetime(2023, 1, 1).date()\<close>, in days since 1970-01-01.\<close>

definition epoch_date :: int where
  "epoch_date = 19358"

text \<open>The list \<open>[0.1, 0.15, 0.2]\<close> that the rate of a discount is chosen from.\<close>

definition discount_rates :: "rat list" where
  "discount_rates = [lit (1 / 10), lit (15 / 100), lit (2 / 10)]"

text \<open>The list \<open>[0, 5.99, 9.99, 14.99]\<close> that the shipping cost is chosen from.\<close>

definition shipping_rates :: "rat list" where
  "shipping_rates = [0, lit (599 / 100), lit (999 / 100), lit (1499 / 100)]"

fun items_loop ::
  "int \<Rightarrow> product list \<Rightarrow> rat \<times> order_item list \<times> int \<times> world
     \<Rightarrow> rat \<times> order_item list \<times> int \<times> world" where
  "items_loop order_id [] st = st"
| "items_loop order_id (product # rest) (subtotal, order_items, order_item_id, w) =
     (let (quantity, w1) = py_randint 1 3 w;
          unit_price = p_price product;
          (r, w2) = py_random w1;
          (discount, w3) =
            (if r < lit (2 / 10)
             then (let (c, w') = py_choice discount_rates w2
                   in (round2 (fmul unit_price c), w'))
             else (0, w2));
          line_total = round2 (fmul (fsub unit_price discount) (of_int quantity));
          order_item = \<lparr>i_order_item_id = order_item_id, i_order_id = order_id,
                         i_product_id = p_product_id product, i_quantity = quantity,
                         i_unit_price = unit_price, i_discount = discount,
                         i_line_total = line_total\<rparr>
      in items_loop order_id rest
           (fadd subtotal line_total, order_items @ [order_item], order_item_id + 1, w3))"

definition order_body ::
  "customer frame \<Rightarrow> product list \<Rightarrow> int \<Rightarrow> order list \<times> order_item list \<times> int \<times> world
     \<Rightarrow> error + order list \<times> order_item list \<times> int \<times> world" where
  "order_body customers_df active_products order_id st =
     (let (orders, order_items, order_item_id, w) = st
      in case sample_customer customers_df w of
           Inl e \<Rightarrow> Inl e
         | Inr (customer, w1) \<Rightarrow>
             (let min_date = max (c_registration_date customer) epoch_date;
                  (order_date, w2) =
                    date_time_between_ts (86400 * min_date) (parse_date_time w1 ''now'') w1;
                  (status, w3) = py_choice order_statuses w2;
                  (n_items, w4) =
                    (if c_segment customer = ''premium'' then py_randint 2 6 w3
                     else py_randint 1 4 w3)
              in case sample_n (min n_items (int (length active_products)))
                        active_products w4 of
                   Inl e \<Rightarrow> Inl e
                 | Inr (order_products, w5) \<Rightarrow>
                     (let (subtotal, order_items', order_item_id', w6) =
                            items_loop order_id order_products
                              (0, order_items, order_item_id, w5);
                          (shipping, w7) =
                            (if subtotal < 50
                             then (let (c, w') = py_choice shipping_rates w6
                                   in (round2 c, w'))
                             else (0, w6));
                          tax = round2 (fmul subtotal (lit (8 / 100)));
                          total = round2 (fadd (fadd subtotal shipping) tax);
                          (payment_method, w8) =
                            py_choice [''credit_card'', ''debit_card'', ''paypal'',
                                       ''apple_pay''] w7;
                          (days, w9) = py_randint 0 5 w8;
                          order = \<lparr>o_order_id = order_id,
                                    o_customer_id = c_customer_id customer,
                                    o_order_date = order_date, o_status = status,
                                    o_subtotal = round2 subtotal, o_shipping = shipping,
                                    o_tax = tax, o_total = total,
                                    o_payment_method = payment_method,
                                    o_shipping_address = c_address customer,
                                    o_shipping_city = c_city customer,
                                    o_shipping_state = c_state customer,
                                    o_shipping_zip = c_zip_code customer,
                                    o_created_at = order_date,
                                    o_updated_at = order_date + 86400 * days\<rparr>
                      in Inr (orders @ [order], order_items', order_item_id', w9))))"

fun orders_loop ::
  "customer frame \<Rightarrow> product list \<Rightarrow> int list \<Rightarrow> order list \<times> order_item list \<times> int \<times> world
     \<Rightarrow> error + order list \<times> order_item list \<times> int \<times> world" where
  "orders_loop customers_df active_products [] st = Inr st"
| "orders_loop customers_df active_products (order_id # rest) st =
     (case order_body customers_df active_products order_id st of
        Inl e \<Rightarrow> Inl e
      | Inr st' \<Rightarrow> orders_loop customers_df active_products rest st')"

definition generate_orders ::
  "customer frame \<Rightarrow> product frame \<Rightarrow> int \<Rightarrow> world
     \<Rightarrow> error + (order frame \<times> order_item frame) \<times> world" where
  "generate_orders customers_df products_df n_orders w =
     (case products_df of
        NoColumns \<Rightarrow> Inl (KeyError ''is_active'')
      | Table ps \<Rightarrow>
          (let active_products = filter p_is_active ps
           in case orders_loop customers_df active_products [1..n_orders] ([], [], 1, w) of
                Inl e \<Rightarrow> Inl e
              | Inr (orders, order_items, order_item_id, w') \<Rightarrow>
                  Inr ((DataFrame orders, DataFrame order_items), w')))"

subsection \<open>generate_all\<close>

text \<open>
  The files of the output directory: \<open>to_csv\<close> stores the frame under the path. Creating
  the directory and the progress messages are left out.
\<close>

datatype csv =
  CustomersCsv "customer frame"
| ProductsCsv "product frame"
| CategoriesCsv "category frame"
| OrdersCsv "order frame"
| OrderItemsCsv "order_item frame"

type_synonym files = "string \<rightharpoonup> csv"

definition to_csv :: "string \<Rightarrow> csv \<Rightarrow> files \<Rightarrow> files" where
  "to_csv path content fs = fs(path \<mapsto> content)"

record dataset =
  ds_customers :: "customer frame"
  ds_products :: "product frame"
  ds_categories :: "category frame"
  ds_orders :: "order frame"
  ds_order_items :: "order_item frame"

definition generate_all ::
  "int \<Rightarrow> int \<Rightarrow> int \<Rightarrow> string \<Rightarrow> world \<times> files \<Rightarrow> (error + dataset) \<times> world \<times> files" where
  "generate_all n_customers n_products n_orders output_dir st =
     (let (w, fs) = st;
          (customers_df, w1) = generate_customers n_customers w;
          fs1 = to_csv (output_dir @ ''/customers.csv'') (CustomersCsv customers_df) fs;
          (products_df, w2) = generate_products n_products w1;
          fs2 = to_csv (output_dir @ ''/products.csv'') (ProductsCsv products_df) fs1;
          categories_df = DataFrame categories;
          fs3 = to_csv (output_dir @ ''/categories.csv'') (CategoriesCsv categories_df) fs2
      in case generate_orders customers_df products_df n_orders w2 of
           Inl e \<Rightarrow> (Inl e, w2, fs3)
         | Inr ((orders_df, order_items_df), w3) \<Rightarrow>
             (let fs4 = to_csv (output_dir @ ''/orders.csv'') (OrdersCsv orders_df) fs3;
                  fs5 = to_csv (output_dir @ ''/order_items.csv'')
                          (OrderItemsCsv order_items_df) fs4
              in (Inr \<lparr>ds_customers = customers_df, ds_products = products_df,
                       ds_categories = categories_df, ds_orders = orders_df,
                       ds_order_items = order_items_df\<rparr>, w3, fs5)))"

text \<open>What the caller of a generator sees: the error raised or the value returned.\<close>

definition outcome :: "error + 'a \<times> world \<Rightarrow> error + 'a" where
  "outcome r = map_sum id fst r"

section \<open>Example inputs\<close>

text \<open>An example of the offsets that Faker's parser gives to the relative dates used.\<close>

definition faker_rel_example :: "string \<Rightarrow> int" where
  "faker_rel_example s =
     (if s = ''-3y'' then - 94608000 else if s = ''-2y'' then - 63072000
      else if s = ''-1y'' then - 31536000 else if s = ''-6m'' then - 15768000
      else if s = ''-3m'' then - 7884000 else if s = ''-1m'' then - 2628000 else 0)"

text \<open>A run on 2026-11-04 in which every generator delivers zeros.\<close>

definition quiet_world :: world where
  "quiet_world = \<lparr>py_rng = [], fk_rng = [], np_rng = [], clock = 1793750400,
                   faker_rel = faker_rel_example\<rparr>"

definition example_customer :: customer where
  "example_customer =
     \<lparr>c_customer_id = 1, c_email = (''email'', 0), c_first_name = (''first_name'', 0),
      c_last_name = (''last_name'', 0), c_phone = (''phone_number'', 0),
      c_address = (''street_address'', 0), c_city = (''city'', 0),
      c_state = (''state_abbr'', 0), c_zip_code = (''zipcode'', 0), c_country = ''USA'',
      c_segment = ''regular'', c_registration_date = 20000, c_is_active = True,
      c_created_at = 1728000000, c_updated_at = 1793750400\<rparr>"

definition example_product :: "int \<Rightarrow> rat \<Rightarrow> bool \<Rightarrow> product" where
  "example_product i price active =
     \<lparr>p_product_id = i, p_sku = ''SKU-03-'' @ zero_pad 5 i,
      p_name = ((''word'', 0), ''Lamp''), p_description = (''sentence'', 0),
      p_category_id = 3, p_category_name = ''Home & Garden'', p_price = price,
      p_cost = round2 (fmul price (fsub 1 (lit (35 / 100)))), p_stock_quantity = 10,
      p_is_active = active, p_created_at = 1750000000, p_updated_at = 1793750400\<rparr>"

text \<open>The order that \<open>example_customer\<close> gets in \<open>quiet_world\<close> when nothing can be sold.\<close>

definition empty_order :: order where
  "empty_order =
     \<lparr>o_order_id = 1, o_customer_id = 1, o_order_date = 1728000000, o_status = ''completed'',
      o_subtotal = 0, o_shipping = 0, o_tax = 0, o_total = 0,
      o_payment_method = ''credit_card'', o_shipping_address = (''street_address'', 0),
      o_shipping_city = (''city'', 0), o_shipping_state = (''state_abbr'', 0),
      o_shipping_zip = (''zipcode'', 0), o_created_at = 1728000000,
      o_updated_at = 1728000000\<rparr>"

text \<open>The same run, a day later.\<close>

definition later_world :: world where
  "later_world = quiet_world\<lparr>clock := 1793836800\<rparr>"

text \<open>The file that a run of \<open>generate_all\<close> leaves under a path.\<close>

definition output_file :: "(error + dataset) \<times> world \<times> files \<Rightarrow> string \<Rightarrow> csv option" where
  "output_file r path = snd (snd r) path"

(*EXAMPLES*)

section \<open>Basic facts\<close>

lemma fl_zero [simp]: "fl 0 = 0"
  by (simp add: fl_def)

lemma rne_zero [simp]: "rne 0 = 0"
  by (simp add: rne_def)

lemma round2_zero [simp]: "round2 0 = 0"
  by (simp add: round2_def)

lemma fmul_zero_left [simp]: "fmul 0 x = 0"
  by (simp add: fmul_def)

lemma upto_nonpos: "n \<le> 0 \<Longrightarrow> [1..n] = []"
  by simp

lemma draw_index: "n \<noteq> 0 \<Longrightarrow> nat (d mod int n) < n"
proof -
  assume "n \<noteq> 0"
  then have "0 \<le> d mod int n" "d mod int n < int n"
    by simp_all
  then show ?thesis
    by linarith
qed

lemma py_choice_in_set: "seq \<noteq> [] \<Longrightarrow> fst (py_choice seq w) \<in> set seq"
  by (simp add: py_choice_def draw_index split: prod.splits)

lemma py_randint_bounds:
  "a \<le> b \<Longrightarrow> a \<le> fst (py_randint a b w) \<and> fst (py_randint a b w) \<le> b"
proof -
  assume ab: "a \<le> b"
  have "0 \<le> x mod (b - a + 1) \<and> x mod (b - a + 1) < b - a + 1" for x :: int
    using ab pos_mod_bound [of "b - a + 1" x] pos_mod_sign [of "b - a + 1" x] by simp
  then have "a \<le> a + x mod (b - a + 1) \<and> a + x mod (b - a + 1) \<le> b" for x :: int
    by (smt (verit))
  then show ?thesis
    by (simp add: py_randint_def split: prod.splits)
qed

lemma generate_customers_nonpos: "n \<le> 0 \<Longrightarrow> generate_customers n w = (NoColumns, w)"
  by (simp add: generate_customers_def DataFrame_def upto_nonpos)

lemma generate_products_nonpos: "n \<le> 0 \<Longrightarrow> generate_products n w = (NoColumns, w)"
  by (simp add: generate_products_def DataFrame_def upto_nonpos)

lemma generate_orders_no_columns:
  "generate_orders customers_df NoColumns n w = Inl (KeyError ''is_active'')"
  by (simp add: generate_orders_def)

lemma generate_orders_nonpos:
  "n \<le> 0 \<Longrightarrow> generate_orders customers_df (Table ps) n w = Inr ((NoColumns, NoColumns), w)"
  by (simp add: generate_orders_def DataFrame_def upto_nonpos)

(*BASIC*)

section \<open>Counts that are not positive\<close>

text \<open>
  C9, as the code has it. No generator checks its count. A count that is zero or negative
  makes \<open>range(1, n + 1)\<close> empty: \<open>generate_customers\<close> and \<open>generate_products\<close> return
  the frame of no rows and leave every generator untouched, and so does
  \<open>generate_orders\<close> when the products frame has its columns; given a frame without
  columns it raises \<open>KeyError\<close>, whatever the count.
\<close>

theorem nonpositive_count_yields_empty:
  "n \<le> 0 \<Longrightarrow>
     generate_customers n w = (NoColumns, w) \<and>
     generate_products n w = (NoColumns, w) \<and>
     generate_orders customers_df (Table ps) n w = Inr ((NoColumns, NoColumns), w) \<and>
     generate_orders customers_df NoColumns n w = Inl (KeyError ''is_active'')"
  by (simp add: generate_customers_nonpos generate_products_nonpos generate_orders_nonpos
        generate_orders_no_columns)

theorem nonpositive_count_yields_empty_witness:
  "generate_customers (- 3) quiet_world = (NoColumns, quiet_world) \<and>
   generate_products (- 3) quiet_world = (NoColumns, quiet_world) \<and>
   generate_orders (Table [example_customer]) (Table [example_product 1 20 True]) (- 3)
     quiet_world = Inr ((NoColumns, NoColumns), quiet_world) \<and>
   generate_orders (Table [example_customer]) NoColumns (- 3) quiet_world =
     Inl (KeyError ''is_active'')"
  using nonpositive_count_yields_empty [of "- 3" quiet_world "Table [example_customer]"
      "[example_product 1 20 True]"]
  by simp

text \<open>
  C9 as the specification states it fails: a count of -1 raises nothing, each generator
  returns its empty result.
\<close>

theorem negative_count_counterexample:
  "generate_customers (- 1) quiet_world = (NoColumns, quiet_world) \<and>
   generate_products (- 1) quiet_world = (NoColumns, quiet_world) \<and>
   outcome (generate_orders (Table [example_customer]) (Table [example_product 1 20 True])
     (- 1) quiet_world) = Inr (NoColumns, NoColumns)"
  by (simp add: generate_customers_def generate_products_def generate_orders_def
        DataFrame_def outcome_def)

section \<open>Orders when no product is active\<close>

lemma shipping_rate_rounded:
  "round2 (lit (599 / 100)) = lit (599 / 100)"
  "round2 (lit (999 / 100)) = lit (999 / 100)"
  "round2 (lit (1499 / 100)) = lit (1499 / 100)"
  by code_simp+

lemma shipping_only_total:
  "round2 (fadd (fadd 0 0) 0) = 0"
  "round2 (fadd (fadd 0 (lit (599 / 100))) 0) = lit (599 / 100)"
  "round2 (fadd (fadd 0 (lit (999 / 100))) 0) = lit (999 / 100)"
  "round2 (fadd (fadd 0 (lit (1499 / 100))) 0) = lit (1499 / 100)"
  by code_simp+

lemma py_choice_shipping: "fst (py_choice shipping_rates v) \<in> set shipping_rates"
  by (rule py_choice_in_set) (simp add: shipping_rates_def)

lemma shipping_rate_fixed: "s \<in> set shipping_rates \<Longrightarrow> round2 s = s"
  by (auto simp: shipping_rates_def shipping_rate_rounded)

lemma shipping_rate_total: "s \<in> set shipping_rates \<Longrightarrow> round2 (fadd (fadd 0 s) 0) = s"
  by (auto simp: shipping_rates_def shipping_only_total)

lemma sample_customer_ok:
  assumes "0 < sum_list (map (\<lambda>c. segment_weight (c_segment c)) cs)"
  shows "\<exists>c w1. sample_customer (Table cs) w = Inr (c, w1)"
proof -
  have "sum_list (map (\<lambda>c. segment_weight (c_segment c)) cs) \<noteq> 0"
    using assms by linarith
  then show ?thesis
    by (simp add: sample_customer_def Let_def split_beta del: sum_list_eq_0_iff)
qed

lemma sample_n_none: "sample_n 0 [] w = Inr ([], w)"
  by (simp add: sample_n_def)

lemma order_body_no_active:
  assumes "sample_customer cdf w = Inr (c, w1)"
  shows "\<exists>ord w'. order_body cdf [] oid (os, its, k, w) = Inr (os @ [ord], its, k, w') \<and>
           o_order_id ord = oid \<and> o_subtotal ord = 0 \<and> o_tax ord = 0 \<and>
           o_shipping ord \<in> set shipping_rates \<and> o_total ord = o_shipping ord"
proof -
  have n1: "min (fst (py_randint 2 6 v)) 0 = 0" for v
    using py_randint_bounds [of 2 6 v] by simp
  have n2: "min (fst (py_randint 1 4 v)) 0 = 0" for v
    using py_randint_bounds [of 1 4 v] by simp
  note ship = shipping_rate_fixed [OF py_choice_shipping]
    shipping_rate_total [OF py_choice_shipping] py_choice_shipping
  show ?thesis
    using assms
    by (simp add: order_body_def Let_def split_beta n1 n2 sample_n_none ship)
qed

lemma orders_loop_no_active:
  assumes "0 < sum_list (map (\<lambda>c. segment_weight (c_segment c)) cs)"
  shows "\<exists>new w'. orders_loop (Table cs) [] ids (os, its, k, w) = Inr (os @ new, its, k, w') \<and>
           map o_order_id new = ids \<and>
           (\<forall>ord\<in>set new. o_subtotal ord = 0 \<and> o_tax ord = 0 \<and>
              o_shipping ord \<in> set shipping_rates \<and> o_total ord = o_shipping ord)"
proof (induction ids arbitrary: os w)
  case Nil
  then show ?case by simp
next
  case (Cons oid ids)
  obtain c w1 where "sample_customer (Table cs) w = Inr (c, w1)"
    using sample_customer_ok [OF assms] by blast
  then obtain ord w2
    where b: "order_body (Table cs) [] oid (os, its, k, w) = Inr (os @ [ord], its, k, w2)"
      and p: "o_order_id ord = oid" "o_subtotal ord = 0" "o_tax ord = 0"
        "o_shipping ord \<in> set shipping_rates" "o_total ord = o_shipping ord"
    using order_body_no_active by blast
  obtain new w'
    where l: "orders_loop (Table cs) [] ids (os @ [ord], its, k, w2)
                = Inr ((os @ [ord]) @ new, its, k, w')"
      and q: "map o_order_id new = ids"
        "\<forall>ord\<in>set new. o_subtotal ord = 0 \<and> o_tax ord = 0 \<and>
           o_shipping ord \<in> set shipping_rates \<and> o_total ord = o_shipping ord"
    using Cons.IH by blast
  have "orders_loop (Table cs) [] (oid # ids) (os, its, k, w)
          = Inr (os @ (ord # new), its, k, w') \<and>
        map o_order_id (ord # new) = oid # ids \<and>
        (\<forall>x\<in>set (ord # new). o_subtotal x = 0 \<and> o_tax x = 0 \<and>
              o_shipping x \<in> set shipping_rates \<and> o_total x = o_shipping x)"
    using b l p q by simp
  then show ?case
    by (intro exI [of _ "ord # new"] exI [of _ w'])
qed

text \<open>
  C6, as the code has it. When the products frame has its columns and no active row, and
  some customer has a segment that carries weight, \<open>generate_orders\<close> raises nothing: it
  returns one order for each of the order ids 1 to \<open>n_orders\<close> and no order item. Each
  of these orders has subtotal 0 and tax 0, a shipping cost taken from
  \<open>[0, 5.99, 9.99, 14.99]\<close>, and that shipping cost as its total.
\<close>

theorem no_active_products_yields_empty_orders:
  assumes "\<forall>p\<in>set ps. \<not> p_is_active p"
    and "0 < sum_list (map (\<lambda>c. segment_weight (c_segment c)) cs)"
  shows "\<exists>new w'. generate_orders (Table cs) (Table ps) n w
                     = Inr ((DataFrame new, NoColumns), w') \<and>
           map o_order_id new = [1..n] \<and>
           (\<forall>ord\<in>set new. o_subtotal ord = 0 \<and> o_tax ord = 0 \<and>
              o_shipping ord \<in> set shipping_rates \<and> o_total ord = o_shipping ord)"
proof -
  have f: "filter p_is_active ps = []"
    using assms(1) by (simp add: filter_empty_conv)
  obtain new w'
    where l: "orders_loop (Table cs) [] [1..n] ([], [], 1, w) = Inr ([] @ new, [], 1, w')"
      and q: "map o_order_id new = [1..n]"
        "\<forall>ord\<in>set new. o_subtotal ord = 0 \<and> o_tax ord = 0 \<and>
           o_shipping ord \<in> set shipping_rates \<and> o_total ord = o_shipping ord"
    using orders_loop_no_active [OF assms(2)] by blast
  have "generate_orders (Table cs) (Table ps) n w = Inr ((DataFrame new, NoColumns), w')"
    using l by (simp add: generate_orders_def f DataFrame_def)
  then show ?thesis using q by blast
qed

theorem no_active_products_yields_empty_orders_witness:
  "\<exists>new w'. generate_orders (Table [example_customer]) (Table [example_product 1 20 False]) 2
      quiet_world = Inr ((DataFrame new, NoColumns), w') \<and>
      map o_order_id new = [1, 2] \<and>
      list_all (\<lambda>ord. o_subtotal ord = 0 \<and> o_tax ord = 0 \<and>
              o_shipping ord \<in> set shipping_rates \<and> o_total ord = o_shipping ord) new"
proof -
  have a: "\<forall>p\<in>set [example_product 1 20 False]. \<not> p_is_active p"
    by (simp add: example_product_def)
  have b: "0 < sum_list (map (\<lambda>c. segment_weight (c_segment c)) [example_customer])"
    by (simp add: example_customer_def segment_weight_def)
  have c: "[1..2] = [1, 2::int]"
    by code_simp
  show ?thesis
    using no_active_products_yields_empty_orders [OF a b, of 2 quiet_world]
    by (simp add: c list_all_iff)
qed

text \<open>
  C6 as the specification states it fails: with one customer and one inactive product,
  \<open>generate_orders\<close> returns an order with no item instead of raising an error.
\<close>

theorem no_active_products_counterexample:
  "outcome (generate_orders (Table [example_customer]) (Table [example_product 1 20 False]) 1
      quiet_world) = Inr (Table [empty_order], NoColumns)"
  by code_simp

section \<open>The files of a run\<close>

lemma generate_all_no_products:
  "n_products \<le> 0 \<Longrightarrow>
     fst (generate_all n_customers n_products n_orders dir (w, fs)) = Inl (KeyError ''is_active'')"
  by (simp add: generate_all_def Let_def split_beta generate_products_nonpos
        generate_orders_no_columns)

lemma generate_all_customers_file:
  "output_file (generate_all n_customers n_products n_orders dir (w, fs))
     (dir @ ''/customers.csv'') = Some (CustomersCsv (fst (generate_customers n_customers w)))"
  by (simp add: output_file_def generate_all_def to_csv_def Let_def split_beta
        split: sum.splits)

text \<open>
  C8, as the code has it. \<open>generate_all\<close> writes each collection as soon as it is
  generated: \<open>customers.csv\<close>, \<open>products.csv\<close> and \<open>categories.csv\<close> are written
  before \<open>generate_orders\<close> runs, whatever happens then. When \<open>generate_orders\<close> raises,
  the run ends with that error, the three files stay written and \<open>orders.csv\<close> and
  \<open>order_items.csv\<close> are left as they were; when it returns, these two files hold the
  orders and order items of the returned data set.
\<close>

theorem generate_all_files:
  "case generate_all n_customers n_products n_orders dir (w, fs) of
     (r, w', fs') \<Rightarrow>
       fs' (dir @ ''/customers.csv'')
         = Some (CustomersCsv (fst (generate_customers n_customers w))) \<and>
       fs' (dir @ ''/products.csv'')
         = Some (ProductsCsv (fst (generate_products n_products
                   (snd (generate_customers n_customers w))))) \<and>
       fs' (dir @ ''/categories.csv'') = Some (CategoriesCsv (DataFrame categories)) \<and>
       (case r of
          Inl e \<Rightarrow> fs' (dir @ ''/orders.csv'') = fs (dir @ ''/orders.csv'') \<and>
                   fs' (dir @ ''/order_items.csv'') = fs (dir @ ''/order_items.csv'')
        | Inr d \<Rightarrow> fs' (dir @ ''/orders.csv'') = Some (OrdersCsv (ds_orders d)) \<and>
                   fs' (dir @ ''/order_items.csv'') = Some (OrderItemsCsv (ds_order_items d)))"
  by (simp add: generate_all_def to_csv_def Let_def split_beta split: sum.splits)

theorem generate_all_files_witness:
  "output_file (generate_all 1 0 1 ''data/generated'' (quiet_world, Map.empty))
     ''data/generated/products.csv'' = Some (ProductsCsv NoColumns) \<and>
   output_file (generate_all 1 0 1 ''data/generated'' (quiet_world, Map.empty))
     ''data/generated/categories.csv'' = Some (CategoriesCsv (DataFrame categories))"
  using generate_all_files [where n_customers = 1 and n_products = 0 and n_orders = 1
      and dir = "''data/generated''" and w = quiet_world and fs = Map.empty]
  by (simp add: output_file_def split_beta generate_products_nonpos)

text \<open>
  C8 as the specification states it fails: with no product requested, the run ends with
  \<open>KeyError\<close> after three of the five files have been written.
\<close>

theorem partial_output_counterexample:
  "fst (generate_all 1 0 1 ''data/generated'' (quiet_world, Map.empty))
     = Inl (KeyError ''is_active'') \<and>
   output_file (generate_all 1 0 1 ''data/generated'' (quiet_world, Map.empty))
     ''data/generated/customers.csv'' \<noteq> None \<and>
   output_file (generate_all 1 0 1 ''data/generated'' (quiet_world, Map.empty))
     ''data/generated/products.csv'' \<noteq> None \<and>
   output_file (generate_all 1 0 1 ''data/generated'' (quiet_world, Map.empty))
     ''data/generated/categories.csv'' \<noteq> None \<and>
   output_file (generate_all 1 0 1 ''data/generated'' (quiet_world, Map.empty))
     ''data/generated/orders.csv'' = None"
  using generate_all_no_products [where n_customers = 1 and n_products = 0 and n_orders = 1
      and dir = "''data/generated''" and w = quiet_world and fs = Map.empty]
  by (simp add: output_file_def generate_all_def to_csv_def Let_def split_beta
        generate_products_nonpos generate_orders_no_columns)

section \<open>Two runs with the same seed\<close>

lemma clock_py_choices [simp]: "clock (snd (py_choices p ws w)) = clock w"
  by (simp add: py_choices_def py_random_def Let_def split_beta)

lemma clock_fake_text [simp]: "clock (snd (fake_text p w)) = clock w"
  by (simp add: fake_text_def Let_def split_beta)

lemma clock_fake_date_between [simp]: "clock (snd (fake_date_between a b w)) = clock w"
  by (simp add: fake_date_between_def date_between_dates_def Let_def split_beta)

lemma customer_row_updated_at: "c_updated_at (fst (customer_row i w)) = clock w"
  by (simp add: customer_row_def Let_def split_beta)

lemma generate_customers_one:
  "fst (generate_customers 1 w) = Table [fst (customer_row 1 w)]"
proof -
  have "[1..1] = [1::int]"
    by (simp add: upto.simps)
  then show ?thesis
    by (simp add: generate_customers_def DataFrame_def split_beta)
qed

lemma generate_customers_clock:
  assumes "clock w \<noteq> clock v"
  shows "fst (generate_customers 1 w) \<noteq> fst (generate_customers 1 v)"
proof
  assume "fst (generate_customers 1 w) = fst (generate_customers 1 v)"
  then have "fst (customer_row 1 w) = fst (customer_row 1 v)"
    by (simp add: generate_customers_one)
  then have "c_updated_at (fst (customer_row 1 w)) = c_updated_at (fst (customer_row 1 v))"
    by simp
  then show False
    using assms by (simp add: customer_row_updated_at)
qed

(*C7*)

(*CLAIMS*)

end
